theory Spec2Isabelle
  imports Main
begin

section \<open>Python builtins used by story_writer_openai_agent.py\<close>

text \<open>
  The exceptions the script can let escape. \<open>ProviderError\<close> stands for whatever the
  OpenAI client or LiteLLM raise; the script never catches it.
\<close>

datatype error = ValueError | TypeError | IndexError | OverflowError | OSError | ProviderError

subsection \<open>Strings\<close>

text \<open>
  \<open>str.lower\<close>, restricted to the ASCII letters (a \<open>char\<close> is a byte; model names
  are ASCII).
\<close>

definition lower_char :: "char \<Rightarrow> char" where
  "lower_char c =
     (case map_of (zip ''ABCDEFGHIJKLMNOPQRSTUVWXYZ'' ''abcdefghijklmnopqrstuvwxyz'') c of
        Some d \<Rightarrow> d
      | None \<Rightarrow> c)"

definition lower :: "string \<Rightarrow> string" where
  "lower s = map lower_char s"

text \<open>\<open>sub in s\<close> on strings: \<open>sub\<close> occurs in \<open>s\<close> as a contiguous run.\<close>

fun startswith :: "string \<Rightarrow> string \<Rightarrow> bool" where
  "startswith s [] = True"
| "startswith [] (p # ps) = False"
| "startswith (c # cs) (p # ps) = (c = p \<and> startswith cs ps)"

fun str_contains :: "string \<Rightarrow> string \<Rightarrow> bool" where
  "str_contains [] sub = (sub = [])"
| "str_contains (c # cs) sub = (startswith (c # cs) sub \<or> str_contains cs sub)"

text \<open>\<open>sep.join(xs)\<close>.\<close>

fun join :: "string \<Rightarrow> string list \<Rightarrow> string" where
  "join sep [] = []"
| "join sep [x] = x"
| "join sep (x # y # ys) = x @ sep @ join sep (y # ys)"

text \<open>The decimal text of an integer, as an f-string prints it.\<close>

function str_nat :: "nat \<Rightarrow> string" where
  "str_nat n =
     (if n < 10 then [''0123456789'' ! n]
      else str_nat (n div 10) @ [''0123456789'' ! (n mod 10)])"
  by pat_completeness auto
termination
  by (relation "measure id") auto

declare str_nat.simps [simp del]

definition str_int :: "int \<Rightarrow> string" where
  "str_int i = (if i < 0 then CHR ''-'' # str_nat (nat (- i)) else str_nat (nat i))"

subsection \<open>Dates\<close>

text \<open>
  A \<open>datetime\<close> is its proleptic Gregorian ordinal (day 1 is 0001-01-01, day 3652059
  is 9999-12-31) and the time of day in microseconds. Adding a \<open>timedelta(days=n)\<close>
  moves the ordinal and keeps the time of day; \<open>timedelta\<close> refuses more than
  999999999 days, and a result outside years 1 to 9999 raises OverflowError.
\<close>

record datetime =
  ordinal :: int
  time_of_day :: nat

definition max_ordinal :: int where
  "max_ordinal = 3652059"

definition add_days :: "datetime \<Rightarrow> int \<Rightarrow> error + datetime" where
  "add_days d n =
     (if n < - 999999999 \<or> 999999999 < n then Inl OverflowError
      else if ordinal d + n < 1 \<or> max_ordinal < ordinal d + n then Inl OverflowError
      else Inr (d\<lparr>ordinal := ordinal d + n\<rparr>))"

section \<open>The world the script runs in\<close>

text \<open>
  Everything the script reads from or sends to its surroundings. The library functions
  whose code is not part of the repository are parameters: the builtin \<open>hash\<close> on
  strings (CPython salts it per process), \<open>str.strip\<close> and \<open>int\<close> on a
  string (\<open>None\<close> where it raises ValueError), both of which follow the Unicode
  tables of the interpreter, the three readings of \<open>datetime.now()\<close> (lines 244,
  257 and 308), \<open>strptime\<close> with the format \<open>%Y-%m-%d\<close>, \<open>strftime\<close>, the
  two provider endpoints and \<open>Path.write_text\<close>.
\<close>

record message =
  role :: string
  content :: string

text \<open>
  A response of the Responses API, as far as \<open>call_llm\<close> probes it. A field is
  \<open>None\<close> when the attribute is missing or is Python's \<open>None\<close> (the code treats
  both alike); \<open>response_str\<close> is \<open>str(response)\<close>.
\<close>

record content_part =
  part_text :: "string option"

record output_item =
  item_type :: "string option"
  item_content :: "content_part list option"
  item_text :: "string option"

record response =
  output_text :: "string option"
  output_items :: "output_item list option"
  response_str :: string

text \<open>
  A chat completion: the \<open>message.content\<close> of each choice, which the API may leave
  \<open>None\<close>.
\<close>

record chat_response =
  choices :: "string option list"

record world =
  environ :: "string \<rightharpoonup> string"
  dotenv_file :: "(string \<rightharpoonup> string) option"
  hash_str :: "string \<Rightarrow> int"
  str_strip :: "string \<Rightarrow> string"
  int_of_str :: "string \<Rightarrow> int option"
  now_start :: datetime
  now_filename :: datetime
  now_header :: datetime
  strptime :: "string \<Rightarrow> datetime option"
  strftime :: "string \<Rightarrow> datetime \<Rightarrow> string"
  responses_create :: "string \<Rightarrow> string \<Rightarrow> string \<Rightarrow> string \<Rightarrow> error + response"
  completion :: "string \<Rightarrow> message list \<Rightarrow> error + chat_response"
  write_text :: "string \<Rightarrow> string \<Rightarrow> error option"

section \<open>load_openai_config and setup_litellm\<close>

text \<open>
  \<open>load_dotenv\<close> adds the variables of the .env file, when the file exists, without
  overriding a variable that is already set; \<open>os.getenv\<close> then reads the result.
\<close>

definition getenv :: "world \<Rightarrow> string \<Rightarrow> string option" where
  "getenv w k = (case dotenv_file w of None \<Rightarrow> environ w k | Some f \<Rightarrow> (f ++ environ w) k)"

definition getenv_default :: "world \<Rightarrow> string \<Rightarrow> string \<Rightarrow> string" where
  "getenv_default w k d = (case getenv w k of None \<Rightarrow> d | Some v \<Rightarrow> v)"

record config =
  api_key :: string
  model :: string
  provider :: string
  reasoning_effort :: string
  verbosity :: string

definition load_openai_config :: "world \<Rightarrow> error + config" where
  "load_openai_config w =
     (let openai_key = getenv w ''OPENAI_API_KEY'';
          model = getenv_default w ''OPENAI_MODEL'' ''gpt-4o'';
          reasoning_effort = getenv_default w ''OPENAI_REASONING_EFFORT'' ''medium'';
          verbosity = getenv_default w ''OPENAI_VERBOSITY'' ''medium''
      in case openai_key of
           None \<Rightarrow> Inl ValueError
         | Some k \<Rightarrow>
             if k = [] then Inl ValueError
             else Inr \<lparr>api_key = k, model = model, provider = ''OpenAI'',
                       reasoning_effort = reasoning_effort, verbosity = verbosity\<rparr>)"

definition setup_litellm :: "config \<Rightarrow> string" where
  "setup_litellm cfg = model cfg"

section \<open>call_llm\<close>

definition is_gpt5 :: "string \<Rightarrow> bool" where
  "is_gpt5 m = str_contains (lower m) ''gpt-5''"

text \<open>Lines 154 to 160: the transcript as the single input string of the Responses API.\<close>

definition role_line :: "message \<Rightarrow> string" where
  "role_line msg = role msg @ '': '' @ content msg"

definition input_text :: "message list \<Rightarrow> string" where
  "input_text messages =
     (case messages of
        [m] \<Rightarrow> content m
      | _ \<Rightarrow> join [CHR 0x0A, CHR 0x0A] (map role_line messages))"

text \<open>
  Lines 181 to 193: the two nested loops over the output items and their content
  parts, with the accumulator \<open>output_text\<close> of the source as \<open>acc\<close>.
\<close>

fun parts_loop :: "content_part list \<Rightarrow> string \<Rightarrow> string" where
  "parts_loop [] acc = acc"
| "parts_loop (c # cs) acc =
     parts_loop cs (case part_text c of Some t \<Rightarrow> acc @ t | None \<Rightarrow> acc)"

definition item_step :: "output_item \<Rightarrow> string \<Rightarrow> string" where
  "item_step item acc =
     (if item_type item = Some ''message'' then
        (case item_content item of Some parts \<Rightarrow> parts_loop parts acc | None \<Rightarrow> acc)
      else
        (case item_text item of Some t \<Rightarrow> acc @ t | None \<Rightarrow> acc))"

fun items_loop :: "output_item list \<Rightarrow> string \<Rightarrow> string" where
  "items_loop [] acc = acc"
| "items_loop (item # items) acc = items_loop items (item_step item acc)"

text \<open>Lines 173 to 200: the three extraction methods.\<close>

definition extract_from_items :: "response \<Rightarrow> string" where
  "extract_from_items r =
     (let out = (case output_items r of
                   None \<Rightarrow> []
                 | Some items \<Rightarrow> items_loop items [])
      in if out = [] then response_str r else out)"

definition extract_text :: "response \<Rightarrow> string" where
  "extract_text r =
     (case output_text r of
        Some t \<Rightarrow> if t \<noteq> [] then t else extract_from_items r
      | None \<Rightarrow> extract_from_items r)"

text \<open>
  \<open>call_llm\<close>. The result is \<open>Inl\<close> when the provider call raises or when
  \<open>choices[0]\<close> does not exist; the returned text is \<open>None\<close> when the chat
  completion carries no content.
\<close>

definition call_llm :: "world \<Rightarrow> string \<Rightarrow> message list \<Rightarrow> config \<Rightarrow> error + string option" where
  "call_llm w m messages cfg =
     (if is_gpt5 m then
        (case responses_create w m (input_text messages) (reasoning_effort cfg) (verbosity cfg) of
           Inl e \<Rightarrow> Inl e
         | Inr r \<Rightarrow> Inr (Some (extract_text r)))
      else
        (case completion w m messages of
           Inl e \<Rightarrow> Inl e
         | Inr r \<Rightarrow>
             (case choices r of
                [] \<Rightarrow> Inl IndexError
              | c # _ \<Rightarrow> Inr c)))"

section \<open>write_multi_day_story\<close>

text \<open>
  What a run does to its surroundings, in order: each invocation of \<open>call_llm\<close>
  with the model name and the transcript it is given, and the call of
  \<open>output_path.write_text\<close> with the path and the document. Console output is
  left out.
\<close>

datatype event = ModelCall string "message list" | WriteText string string

record run_state =
  conversation_history :: "message list"
  story_content :: "string list"
  events :: "event list"

subsection \<open>Lines 241 to 260: start date and output path\<close>

definition offset_days :: "world \<Rightarrow> string \<Rightarrow> int" where
  "offset_days w initial_prompt = (hash_str w initial_prompt mod 365) - 180"

definition start_date_of :: "world \<Rightarrow> string \<Rightarrow> string option \<Rightarrow> error + datetime" where
  "start_date_of w initial_prompt story_start_date =
     (case story_start_date of
        None \<Rightarrow> add_days (now_start w) (offset_days w initial_prompt)
      | Some s \<Rightarrow> (case strptime w s of None \<Rightarrow> Inl ValueError | Some d \<Rightarrow> Inr d))"

definition output_path_of :: "world \<Rightarrow> string option \<Rightarrow> string" where
  "output_path_of w output_file =
     (case output_file of
        None \<Rightarrow> ''story_openai_'' @ strftime w ''%Y%m%d_%H%M%S'' (now_filename w) @ ''.md''
      | Some f \<Rightarrow> f)"

subsection \<open>Lines 273 to 318: the storyboard\<close>

definition storyboard_prompt :: "string \<Rightarrow> int \<Rightarrow> string \<Rightarrow> string" where
  "storyboard_prompt initial_prompt num_days story_start_str =
     ''Based on this story premise: '' @ [CHR 0x22] @ initial_prompt @ [CHR 0x22] @ [CHR 0x0A] @
     [CHR 0x0A] @
     ''Create a detailed storyboard and character profiles for a '' @ str_int num_days @
     ''-day story starting on '' @ story_start_str @ ''.'' @ [CHR 0x0A] @
     [CHR 0x0A] @
     ''Please provide:'' @ [CHR 0x0A] @
     [CHR 0x0A] @
     ''1. **Character Profiles**: For each main character, include:'' @ [CHR 0x0A] @
     ''   - Full name'' @ [CHR 0x0A] @
     ''   - Age'' @ [CHR 0x0A] @
     ''   - Birthday (specific date, make it realistic relative to their age)'' @ [CHR 0x0A] @
     ''   - Brief backstory (2-3 sentences covering their background, personality, and what led them to this point)'' @ [CHR 0x0A] @
     ''   - Key personality traits'' @ [CHR 0x0A] @
     [CHR 0x0A] @
     ''2. **Story Storyboard**: Create a high-level outline of what will happen across all '' @
     str_int num_days @ '' days:'' @ [CHR 0x0A] @
     ''   - Major plot points and events for each day'' @ [CHR 0x0A] @
     ''   - Character development arcs'' @ [CHR 0x0A] @
     ''   - Key conflicts and resolutions'' @ [CHR 0x0A] @
     ''   - How the story builds and progresses day by day'' @ [CHR 0x0A] @
     ''   - Emotional beats and turning points'' @ [CHR 0x0A] @
     [CHR 0x0A] @
     ''Format this as a structured plan that we'' @ [CHR 0x27] @ ''ll follow when writing the full story. Be specific about what happens on which day, using actual dates starting from '' @
     story_start_str @ ''.''"

text \<open>Lines 307 to 318: the fragments that open the document.\<close>

definition document_head :: "world \<Rightarrow> config \<Rightarrow> string \<Rightarrow> int \<Rightarrow> string \<Rightarrow> string \<Rightarrow> string list" where
  "document_head w cfg initial_prompt num_days story_start_str storyboard_text =
     [''# '' @ initial_prompt @ [CHR 0x0A, CHR 0x0A],
      ''*Generated on '' @ strftime w ''%Y-%m-%d %H:%M:%S'' (now_header w) @ ''*  '' @ [CHR 0x0A],
      ''*Story Duration: '' @ str_int num_days @ '' days*  '' @ [CHR 0x0A],
      ''*Story Start Date: '' @ story_start_str @ ''*  '' @ [CHR 0x0A],
      ''*Provider: '' @ provider cfg @ '' | Model: '' @ model cfg @ ''*'' @ [CHR 0x0A, CHR 0x0A],
      ''---'' @ [CHR 0x0A, CHR 0x0A],
      ''## Story Planning'' @ [CHR 0x0A, CHR 0x0A],
      storyboard_text @ [CHR 0x0A, CHR 0x0A],
      ''---'' @ [CHR 0x0A, CHR 0x0A],
      ''## The Story'' @ [CHR 0x0A, CHR 0x0A]]"

text \<open>
  A step that raises gives \<open>Inl\<close> with the exception and the events so far. A
  \<open>None\<close> returned by \<open>call_llm\<close> raises TypeError where the text is
  concatenated with the line breaks (lines 316 and 355); no model call or write lies in
  between.
\<close>

definition storyboard_step ::
  "world \<Rightarrow> config \<Rightarrow> string \<Rightarrow> int \<Rightarrow> string \<Rightarrow> (error \<times> event list) + run_state" where
  "storyboard_step w cfg initial_prompt num_days story_start_str =
     (let m = setup_litellm cfg;
          history = [\<lparr>role = ''user'',
                      content = storyboard_prompt initial_prompt num_days story_start_str\<rparr>];
          evs = [ModelCall m history]
      in case call_llm w m history cfg of
           Inl e \<Rightarrow> Inl (e, evs)
         | Inr None \<Rightarrow> Inl (TypeError, evs)
         | Inr (Some storyboard_text) \<Rightarrow>
             Inr \<lparr>conversation_history =
                    history @ [\<lparr>role = ''assistant'', content = storyboard_text\<rparr>],
                  story_content =
                    document_head w cfg initial_prompt num_days story_start_str storyboard_text,
                  events = evs\<rparr>)"

subsection \<open>Lines 322 to 356: the loop over the days\<close>

definition day_prompt :: "int \<Rightarrow> string \<Rightarrow> string" where
  "day_prompt day_num date_str =
     ''Now write the full narrative for Day '' @ str_int day_num @ '' ('' @ date_str @
     '') following the storyboard plan.'' @ [CHR 0x0A] @
     [CHR 0x0A] @
     ''Include:'' @ [CHR 0x0A] @
     ''- Rich, detailed prose with character thoughts and emotions'' @ [CHR 0x0A] @
     ''- Specific times and activities throughout the day (morning, afternoon, evening, night)'' @ [CHR 0x0A] @
     ''- Dialogue that reveals character personalities'' @ [CHR 0x0A] @
     ''- Sensory details and atmospheric descriptions'' @ [CHR 0x0A] @
     ''- How events align with the character backstories and the overall storyboard'' @ [CHR 0x0A] @
     [CHR 0x0A] @
     ''Make this engaging literary fiction, not just a summary. Write it as a complete narrative section.''"

definition day_header :: "int \<Rightarrow> string \<Rightarrow> string" where
  "day_header day_num date_str =
     ''### Day '' @ str_int day_num @ '': '' @ date_str @ [CHR 0x0A, CHR 0x0A]"

definition day_step ::
  "world \<Rightarrow> config \<Rightarrow> datetime \<Rightarrow> int \<Rightarrow> run_state \<Rightarrow> (error \<times> event list) + run_state" where
  "day_step w cfg start_date day_num s =
     (case add_days start_date (day_num - 1) of
        Inl e \<Rightarrow> Inl (e, events s)
      | Inr current_date \<Rightarrow>
          let m = setup_litellm cfg;
              date_str = strftime w ''%B %d, %Y (%A)'' current_date;
              history = conversation_history s @
                          [\<lparr>role = ''user'', content = day_prompt day_num date_str\<rparr>];
              evs = events s @ [ModelCall m history]
          in case call_llm w m history cfg of
               Inl e \<Rightarrow> Inl (e, evs)
             | Inr None \<Rightarrow> Inl (TypeError, evs)
             | Inr (Some day_text) \<Rightarrow>
                 Inr \<lparr>conversation_history =
                        history @ [\<lparr>role = ''assistant'', content = day_text\<rparr>],
                      story_content =
                        story_content s @
                          [day_header day_num date_str, day_text @ [CHR 0x0A, CHR 0x0A]],
                      events = evs\<rparr>)"

text \<open>
  The \<open>for\<close> loop, over the list that \<open>range(1, num_days + 1)\<close> yields; an
  exception in one day ends the loop.
\<close>

fun day_loop ::
  "world \<Rightarrow> config \<Rightarrow> datetime \<Rightarrow> int list \<Rightarrow> run_state \<Rightarrow> (error \<times> event list) + run_state" where
  "day_loop w cfg start_date [] s = Inr s"
| "day_loop w cfg start_date (day_num # rest) s =
     (case day_step w cfg start_date day_num s of
        Inl x \<Rightarrow> Inl x
      | Inr s' \<Rightarrow> day_loop w cfg start_date rest s')"

definition py_range :: "int \<Rightarrow> int \<Rightarrow> int list" where
  "py_range a b = [a..b - 1]"

subsection \<open>Lines 359 to 364: writing the file, and the whole function\<close>

definition finish :: "world \<Rightarrow> datetime \<Rightarrow> int \<Rightarrow> string \<Rightarrow> run_state \<Rightarrow> error option \<times> event list" where
  "finish w start_date num_days output_path s =
     (let doc = concat (story_content s);
          evs = events s @ [WriteText output_path doc]
      in case write_text w output_path doc of
           Some e \<Rightarrow> (Some e, evs)
         | None \<Rightarrow>
             (case add_days start_date (num_days - 1) of
                Inl e \<Rightarrow> (Some e, evs)
              | Inr end_date \<Rightarrow> (None, evs)))"

text \<open>
  The result of a run: the exception that ended it (\<open>None\<close> when the function
  returned) and the events in the order they happened.
\<close>

definition write_multi_day_story ::
  "world \<Rightarrow> string \<Rightarrow> int \<Rightarrow> string option \<Rightarrow> string option \<Rightarrow> error option \<times> event list" where
  "write_multi_day_story w initial_prompt num_days output_file story_start_date =
     (case load_openai_config w of
        Inl e \<Rightarrow> (Some e, [])
      | Inr cfg \<Rightarrow>
          (case start_date_of w initial_prompt story_start_date of
             Inl e \<Rightarrow> (Some e, [])
           | Inr start_date \<Rightarrow>
               let story_start_str = strftime w ''%B %d, %Y'' start_date;
                   output_path = output_path_of w output_file
               in case storyboard_step w cfg initial_prompt num_days story_start_str of
                    Inl (e, evs) \<Rightarrow> (Some e, evs)
                  | Inr s0 \<Rightarrow>
                      (case day_loop w cfg start_date (py_range 1 (num_days + 1)) s0 of
                         Inl (e, evs) \<Rightarrow> (Some e, evs)
                       | Inr s \<Rightarrow> finish w start_date num_days output_path s)))"

section \<open>interactive_story_writer\<close>

definition default_premise :: string where
  "default_premise =
     ''A software developer discovers a mysterious bug that seems to change reality''"

text \<open>
  Lines 381 to 399, given the two lines that \<open>input\<close> returns: the arguments with
  which \<open>write_multi_day_story\<close> is called, and the run itself.
\<close>

definition interactive_args :: "world \<Rightarrow> string \<Rightarrow> string \<Rightarrow> string \<times> int" where
  "interactive_args w line1 line2 =
     (let initial_prompt = str_strip w line1;
          initial_prompt = (if initial_prompt = [] then default_premise else initial_prompt);
          num_days = (case int_of_str w (str_strip w line2) of None \<Rightarrow> 3 | Some n \<Rightarrow> n)
      in (initial_prompt, num_days))"

definition interactive_story_writer :: "world \<Rightarrow> string \<Rightarrow> string \<Rightarrow> error option \<times> event list" where
  "interactive_story_writer w line1 line2 =
     (case interactive_args w line1 line2 of
        (initial_prompt, num_days) \<Rightarrow> write_multi_day_story w initial_prompt num_days None None)"

section \<open>Notions used to state the properties\<close>

subsection \<open>Events and documents\<close>

fun is_model_call :: "event \<Rightarrow> bool" where
  "is_model_call (ModelCall m msgs) = True"
| "is_model_call (WriteText path doc) = False"


definition model_calls :: "event list \<Rightarrow> event list" where
  "model_calls evs = filter is_model_call evs"


fun transcript_length :: "event \<Rightarrow> nat" where
  "transcript_length (ModelCall m msgs) = length msgs"
| "transcript_length (WriteText path doc) = 0"

text \<open>The date of day \<open>k\<close> of a story that starts on \<open>start_date\<close>, and its text in a day header.\<close>

definition date_of_day :: "datetime \<Rightarrow> int \<Rightarrow> datetime" where
  "date_of_day start_date k = start_date\<lparr>ordinal := ordinal start_date + (k - 1)\<rparr>"

definition day_section :: "world \<Rightarrow> datetime \<Rightarrow> int \<times> string \<Rightarrow> string list" where
  "day_section w start_date kt =
     [day_header (fst kt) (strftime w ''%B %d, %Y (%A)'' (date_of_day start_date (fst kt))),
      snd kt @ [CHR 0x0A, CHR 0x0A]]"

text \<open>The two entries that day \<open>k\<close> adds to the transcript (lines 344 and 352).\<close>

definition day_exchange :: "world \<Rightarrow> datetime \<Rightarrow> int \<times> string \<Rightarrow> message list" where
  "day_exchange w start_date kt =
     [\<lparr>role = ''user'',
       content = day_prompt (fst kt)
                   (strftime w ''%B %d, %Y (%A)'' (date_of_day start_date (fst kt)))\<rparr>,
      \<lparr>role = ''assistant'', content = snd kt\<rparr>]"

text \<open>The fragments of a document that are day headers, by their fixed opening.\<close>

definition day_headers :: "string list \<Rightarrow> string list" where
  "day_headers fragments = filter (\<lambda>f. startswith f ''### Day '') fragments"

subsection \<open>The text extraction as the specification words it, and as the code has it\<close>

definition part_texts :: "content_part list \<Rightarrow> string" where
  "part_texts parts = concat (map (\<lambda>p. case part_text p of Some t \<Rightarrow> t | None \<Rightarrow> []) parts)"

definition message_text :: "output_item \<Rightarrow> string" where
  "message_text item = (case item_content item of Some parts \<Rightarrow> part_texts parts | None \<Rightarrow> [])"

text \<open>
  Step 2 in the words of the specification: the output items filtered to the
  message-type items, their text parts concatenated.
\<close>

definition message_items_text :: "response \<Rightarrow> string" where
  "message_items_text r =
     (case output_items r of
        None \<Rightarrow> []
      | Some items \<Rightarrow>
          concat (map message_text (filter (\<lambda>item. item_type item = Some ''message'') items)))"

definition extract_text_spec :: "response \<Rightarrow> string" where
  "extract_text_spec r =
     (if output_text r \<noteq> None \<and> output_text r \<noteq> Some [] then the (output_text r)
      else if message_items_text r \<noteq> [] then message_items_text r
      else response_str r)"

text \<open>
  Step 2 with the second branch of the loop: an item that is not of type message
  contributes its own \<open>text\<close>, when it has one.
\<close>

definition item_contribution :: "output_item \<Rightarrow> string" where
  "item_contribution item =
     (if item_type item = Some ''message'' then message_text item
      else (case item_text item of Some t \<Rightarrow> t | None \<Rightarrow> []))"

definition all_items_text :: "response \<Rightarrow> string" where
  "all_items_text r =
     (case output_items r of
        None \<Rightarrow> []
      | Some items \<Rightarrow> concat (map item_contribution items))"

text \<open>The flattening in the words of the specification: one role-prefixed line per entry.\<close>

definition input_text_spec :: "message list \<Rightarrow> string" where
  "input_text_spec messages = join [CHR 0x0A, CHR 0x0A] (map role_line messages)"

subsection \<open>Documents written and the transcript of a run\<close>

text \<open>The documents handed to \<open>write_text\<close> in the course of a run, in order.\<close>

fun written_document :: "event \<Rightarrow> string list" where
  "written_document (ModelCall m msgs) = []"
| "written_document (WriteText path doc) = [doc]"

definition written_documents :: "event list \<Rightarrow> string list" where
  "written_documents evs = concat (map written_document evs)"

text \<open>
  The transcript of a run immediately after day \<open>k\<close> has completed: the storyboard
  step followed by the first \<open>k\<close> iterations of the loop. It is \<open>None\<close> when the
  run is ended by an exception before that point.
\<close>

definition transcript_after_day ::
  "world \<Rightarrow> string \<Rightarrow> int \<Rightarrow> string option \<Rightarrow> int \<Rightarrow> message list option" where
  "transcript_after_day w initial_prompt num_days story_start_date k =
     (case load_openai_config w of
        Inl e \<Rightarrow> None
      | Inr cfg \<Rightarrow>
          (case start_date_of w initial_prompt story_start_date of
             Inl e \<Rightarrow> None
           | Inr start_date \<Rightarrow>
               (case storyboard_step w cfg initial_prompt num_days
                       (strftime w ''%B %d, %Y'' start_date) of
                  Inl x \<Rightarrow> None
                | Inr s0 \<Rightarrow>
                    (case day_loop w cfg start_date (py_range 1 (k + 1)) s0 of
                       Inl x \<Rightarrow> None
                     | Inr s \<Rightarrow> Some (conversation_history s)))))"

subsection \<open>Example surroundings\<close>

definition example_strftime :: "string \<Rightarrow> datetime \<Rightarrow> string" where
  "example_strftime fmt d = ''day '' @ str_int (ordinal d)"

text \<open>
  Stand-ins for \<open>str.strip\<close> and \<open>int\<close> that agree with the builtins on the
  inputs of the examples: lines of spaces and letters, and the numeral 5.
\<close>

definition example_strip :: "string \<Rightarrow> string" where
  "example_strip s =
     rev (dropWhile (\<lambda>c. c = CHR '' '') (rev (dropWhile (\<lambda>c. c = CHR '' '') s)))"

definition example_int :: "string \<Rightarrow> int option" where
  "example_int s = (if s = ''5'' then Some 5 else None)"

definition example_response :: response where
  "example_response =
     \<lparr>output_text = None,
      output_items = Some [\<lparr>item_type = Some ''reasoning'', item_content = None,
                            item_text = Some ''thinking''\<rparr>],
      response_str = ''Response()''\<rparr>"

text \<open>
  A process with the key set and the default model, on 2026-11-04 (ordinal 739924),
  whose provider answers every request with the same text.
\<close>

definition example_world :: world where
  "example_world =
     \<lparr>environ = [''OPENAI_API_KEY'' \<mapsto> ''sk-test''],
      dotenv_file = None,
      hash_str = (\<lambda>s. int (length s)),
      str_strip = example_strip,
      int_of_str = example_int,
      now_start = \<lparr>ordinal = 739924, time_of_day = 0\<rparr>,
      now_filename = \<lparr>ordinal = 739924, time_of_day = 1\<rparr>,
      now_header = \<lparr>ordinal = 739924, time_of_day = 2\<rparr>,
      strptime = (\<lambda>s. if s = ''2025-07-21'' then Some \<lparr>ordinal = 739453, time_of_day = 0\<rparr>
                        else None),
      strftime = example_strftime,
      responses_create = (\<lambda>m i e v. Inr example_response),
      completion = (\<lambda>m msgs. Inr \<lparr>choices = [Some ''Once upon a time.'']\<rparr>),
      write_text = (\<lambda>path doc. None)\<rparr>"

text \<open>The same process without the key, and with other values of the builtin hash.\<close>

definition no_key_world :: world where
  "no_key_world = example_world\<lparr>environ := Map.empty\<rparr>"

definition other_salt_world :: world where
  "other_salt_world = example_world\<lparr>hash_str := (\<lambda>s. int (length s) + 1)\<rparr>"

definition hash_364_world :: world where
  "hash_364_world = example_world\<lparr>hash_str := (\<lambda>s. 364)\<rparr>"

section \<open>Properties\<close>

lemmas world_defs =
  example_world_def no_key_world_def other_salt_world_def hash_364_world_def

subsection \<open>The derived start date\<close>

text \<open>
  C6, as the code has it: the derived day offset \<open>(hash(premise) % 365) - 180\<close> lies
  between -180 and 184, since Python's \<open>%\<close> with a positive modulus yields 0 to 364;
  the derived start date, when the addition does not leave the years 1 to 9999, is the
  clock reading of line 244 moved by that offset, so it lies between 180 days before
  and 184 days after the current date.
\<close>

theorem offset_days_window:
  "- 180 \<le> offset_days w initial_prompt \<and> offset_days w initial_prompt \<le> 184 \<and>
   (\<forall>start_date. start_date_of w initial_prompt None = Inr start_date \<longrightarrow>
      start_date = (now_start w)\<lparr>ordinal := ordinal (now_start w) + offset_days w initial_prompt\<rparr> \<and>
      ordinal (now_start w) - 180 \<le> ordinal start_date \<and>
      ordinal start_date \<le> ordinal (now_start w) + 184)"
proof -
  have "0 \<le> hash_str w initial_prompt mod 365"
    by simp
  moreover have "hash_str w initial_prompt mod 365 < 365"
    by simp
  ultimately have w: "- 180 \<le> offset_days w initial_prompt \<and> offset_days w initial_prompt \<le> 184"
    unfolding offset_days_def by linarith
  have "start_date = (now_start w)\<lparr>ordinal := ordinal (now_start w) + offset_days w initial_prompt\<rparr>"
    if "start_date_of w initial_prompt None = Inr start_date" for start_date
    using that by (auto simp: start_date_of_def add_days_def split: if_splits)
  with w show ?thesis
    by auto
qed

theorem offset_days_window_witness:
  "start_date_of example_world ''A detective'' None = Inr \<lparr>ordinal = 739755, time_of_day = 0\<rparr> \<and>
   offset_days example_world ''A detective'' = - 169 \<and>
   ordinal (now_start example_world) - 180 \<le> 739755 \<and>
   739755 \<le> ordinal (now_start example_world) + 184"
  using offset_days_window [of example_world "''A detective''"]
  by (simp add: start_date_of_def add_days_def max_ordinal_def offset_days_def example_world_def)

text \<open>
  C6 as stated (the offset lies in the interval from -180 to 180) fails for a premise
  whose hash is 364 modulo 365: the offset is 184.
\<close>

theorem offset_days_exceeds_180:
  "\<not> (- 180 \<le> offset_days hash_364_world ''A detective'' \<and>
      offset_days hash_364_world ''A detective'' \<le> 180)"
  by (simp add: offset_days_def world_defs)

text \<open>
  Within one process (one hash function) the derived date depends only on the premise
  and on the calendar day of the clock reading.
\<close>

lemma start_date_same_process:
  "hash_str w1 = hash_str w2 \<Longrightarrow> ordinal (now_start w1) = ordinal (now_start w2) \<Longrightarrow>
   map_sum id ordinal (start_date_of w1 p None) = map_sum id ordinal (start_date_of w2 p None)"
  by (simp add: start_date_of_def add_days_def offset_days_def)

text \<open>
  C4: two runs on the same calendar day with the same premise derive the same start
  date. The code computes the date from the builtin \<open>hash\<close> of the premise, which
  differs from one interpreter process to the next; two processes whose hashes of the
  premise differ modulo 365 derive different dates on the same day.
\<close>

theorem start_date_depends_on_hash_salt:
  "start_date_of example_world ''A detective'' None =
     Inr \<lparr>ordinal = 739755, time_of_day = 0\<rparr> \<and>
   start_date_of other_salt_world ''A detective'' None =
     Inr \<lparr>ordinal = 739756, time_of_day = 0\<rparr>"
  by (simp add: start_date_of_def add_days_def offset_days_def world_defs max_ordinal_def)

subsection \<open>The missing API key\<close>

text \<open>
  C5: \<open>load_openai_config\<close> raises exactly when the API key is absent (or empty),
  it raises nothing but that ValueError, and a run in which the key is absent ends with
  that ValueError without a single event: no model invocation is issued.
\<close>

theorem missing_key_aborts:
  "(load_openai_config w = Inl ValueError \<longleftrightarrow>
      getenv w ''OPENAI_API_KEY'' = None \<or> getenv w ''OPENAI_API_KEY'' = Some []) \<and>
   (\<forall>e. load_openai_config w = Inl e \<longrightarrow> e = ValueError) \<and>
   (getenv w ''OPENAI_API_KEY'' = None \<or> getenv w ''OPENAI_API_KEY'' = Some [] \<longrightarrow>
      write_multi_day_story w initial_prompt num_days output_file story_start_date =
        (Some ValueError, []))"
  by (auto simp: load_openai_config_def write_multi_day_story_def Let_def
           split: option.splits if_splits)

theorem missing_key_aborts_witness:
  "getenv no_key_world ''OPENAI_API_KEY'' = None \<and>
   load_openai_config no_key_world = Inl ValueError \<and>
   write_multi_day_story no_key_world ''A detective'' 3 None None = (Some ValueError, [])"
  using missing_key_aborts [of no_key_world "''A detective''" 3 None None]
  by (simp add: getenv_def world_defs)

subsection \<open>call_llm under the reasoning convention\<close>

text \<open>The loops of the extraction append to their accumulator what the items contribute.\<close>

lemma parts_loop_acc: "parts_loop parts acc = acc @ part_texts parts"
  by (induction parts arbitrary: acc) (auto simp: part_texts_def split: option.splits)

lemma item_step_acc: "item_step item acc = acc @ item_contribution item"
  by (auto simp: item_step_def item_contribution_def message_text_def parts_loop_acc
           split: option.splits)

lemma items_loop_acc: "items_loop items acc = acc @ concat (map item_contribution items)"
  by (induction items arbitrary: acc) (auto simp: item_step_acc)

text \<open>
  C7, as the code has it: the returned text is (1) \<open>output_text\<close> when it is present
  and not empty; otherwise (2) the concatenation, over the output items in order, of
  the text parts of each message-type item and of the direct \<open>text\<close> of each item
  that is not of type message, when that concatenation is not empty; otherwise
  (3) the stringified response.
\<close>

theorem extract_text_order:
  "extract_text r =
     (if output_text r \<noteq> None \<and> output_text r \<noteq> Some [] then the (output_text r)
      else if all_items_text r \<noteq> [] then all_items_text r
      else response_str r)"
  by (auto simp: extract_text_def extract_from_items_def all_items_text_def items_loop_acc Let_def
           split: option.splits)

text \<open>
  C7 as stated (step 2 keeps the message-type items only) fails for a response without
  \<open>output_text\<close> whose only output item is a reasoning item with a \<open>text\<close>:
  the code returns that text, where the claim's three steps give the stringified
  response.
\<close>

theorem extract_text_differs_from_spec:
  "extract_text example_response = ''thinking'' \<and>
   extract_text_spec example_response = ''Response()''"
  by (simp add: extract_text_def extract_from_items_def extract_text_spec_def
        message_items_text_def example_response_def item_step_def)

text \<open>
  C8, as the code has it: under the reasoning convention the transcript is sent as one
  input string. A transcript that does not consist of exactly one entry is sent as the
  role-prefixed lines of its entries, one per entry, joined by blank lines; a transcript
  of exactly one entry is sent as the content of that entry alone.
\<close>

theorem reasoning_input_flattened:
  "is_gpt5 m \<Longrightarrow>
   call_llm w m messages cfg =
     (case responses_create w m (input_text messages) (reasoning_effort cfg) (verbosity cfg) of
        Inl e \<Rightarrow> Inl e
      | Inr r \<Rightarrow> Inr (Some (extract_text r))) \<and>
   (length messages \<noteq> 1 \<longrightarrow>
      input_text messages = join [CHR 0x0A, CHR 0x0A] (map role_line messages)) \<and>
   (length messages = 1 \<longrightarrow> input_text messages = content (hd messages))"
  by (auto simp: call_llm_def input_text_def split: list.splits)

lemma is_gpt5_mini: "is_gpt5 ''GPT-5-mini''"
  by (simp add: is_gpt5_def lower_def lower_char_def)

theorem reasoning_input_flattened_witness:
  "is_gpt5 ''GPT-5-mini'' \<and>
   length [\<lparr>role = ''user'', content = ''plan''\<rparr>,
           \<lparr>role = ''assistant'', content = ''ok''\<rparr>] \<noteq> 1 \<and>
   input_text [\<lparr>role = ''user'', content = ''plan''\<rparr>,
               \<lparr>role = ''assistant'', content = ''ok''\<rparr>] =
     ''user: plan'' @ [CHR 0x0A, CHR 0x0A] @ ''assistant: ok'' \<and>
   call_llm example_world ''GPT-5-mini''
     [\<lparr>role = ''user'', content = ''plan''\<rparr>, \<lparr>role = ''assistant'', content = ''ok''\<rparr>]
     \<lparr>api_key = ''sk-test'', model = ''GPT-5-mini'', provider = ''OpenAI'',
      reasoning_effort = ''medium'', verbosity = ''medium''\<rparr> = Inr (Some ''thinking'') \<and>
   length [\<lparr>role = ''user'', content = ''storyboard''\<rparr>] = 1 \<and>
   input_text [\<lparr>role = ''user'', content = ''storyboard''\<rparr>] = ''storyboard''"
  using reasoning_input_flattened [of "''GPT-5-mini''"
      example_world
      "[\<lparr>role = ''user'', content = ''plan''\<rparr>, \<lparr>role = ''assistant'', content = ''ok''\<rparr>]"
      "\<lparr>api_key = ''sk-test'', model = ''GPT-5-mini'', provider = ''OpenAI'',
        reasoning_effort = ''medium'', verbosity = ''medium''\<rparr>"]
    reasoning_input_flattened [of "''GPT-5-mini''"
      example_world
      "[\<lparr>role = ''user'', content = ''storyboard''\<rparr>]"
      "\<lparr>api_key = ''sk-test'', model = ''GPT-5-mini'', provider = ''OpenAI'',
        reasoning_effort = ''medium'', verbosity = ''medium''\<rparr>"]
    is_gpt5_mini
  by (simp add: role_line_def example_world_def extract_text_def extract_from_items_def
        example_response_def item_step_def)

text \<open>
  C8 as stated (every transcript becomes role-prefixed lines) fails for a transcript of
  one entry, which is what the storyboard call sends: its content is passed as it is,
  without the role.
\<close>

theorem single_message_not_prefixed:
  "is_gpt5 ''gpt-5'' \<and>
   input_text [\<lparr>role = ''user'', content = ''plan''\<rparr>] = ''plan'' \<and>
   input_text_spec [\<lparr>role = ''user'', content = ''plan''\<rparr>] = ''user: plan''"
  by (simp add: input_text_def input_text_spec_def role_line_def is_gpt5_def lower_def
        lower_char_def)

subsection \<open>Interactive mode\<close>

text \<open>
  C10: a first input line that \<open>strip\<close> reduces to the empty string, as it does an
  empty or whitespace-only line, yields the default premise; a second line that
  \<open>int\<close> refuses after \<open>strip\<close> yields 3 days; and in every case
  \<open>write_multi_day_story\<close> is run with the resulting arguments, without start
  date and output file.
\<close>

theorem interactive_defaults:
  "(str_strip w line1 = [] \<longrightarrow> fst (interactive_args w line1 line2) = default_premise) \<and>
   (int_of_str w (str_strip w line2) = None \<longrightarrow> snd (interactive_args w line1 line2) = 3) \<and>
   interactive_story_writer w line1 line2 =
     write_multi_day_story w (fst (interactive_args w line1 line2))
       (snd (interactive_args w line1 line2)) None None"
  by (auto simp: interactive_args_def interactive_story_writer_def Let_def split: prod.splits)

theorem interactive_defaults_witness:
  "str_strip example_world ''  '' = [] \<and>
   int_of_str example_world (str_strip example_world ''three'') = None \<and>
   interactive_args example_world ''  '' ''three'' = (default_premise, 3) \<and>
   interactive_story_writer example_world ''  '' ''three'' =
     write_multi_day_story example_world default_premise 3 None None"
  using interactive_defaults [of example_world "''  ''" "''three''"]
  by (simp add: example_world_def example_strip_def example_int_def prod_eq_iff)

subsection \<open>One step of the driver\<close>

lemma add_days_Inr: "add_days d n = Inr d' \<Longrightarrow> d' = d\<lparr>ordinal := ordinal d + n\<rparr>"
  by (auto simp: add_days_def split: if_splits)

lemma day_step_Inr:
  assumes "day_step w cfg start_date k s = Inr s'"
  shows "\<exists>t. conversation_history s' =
               conversation_history s @
                 [\<lparr>role = ''user'',
                   content = day_prompt k (strftime w ''%B %d, %Y (%A)'' (date_of_day start_date k))\<rparr>,
                  \<lparr>role = ''assistant'', content = t\<rparr>] \<and>
             story_content s' = story_content s @ day_section w start_date (k, t) \<and>
             events s' =
               events s @
                 [ModelCall (model cfg)
                    (conversation_history s @
                       [\<lparr>role = ''user'',
                         content = day_prompt k
                           (strftime w ''%B %d, %Y (%A)'' (date_of_day start_date k))\<rparr>])]"
  using assms
  by (auto simp: day_step_def Let_def setup_litellm_def day_section_def date_of_day_def
           dest!: add_days_Inr split: sum.splits option.splits)

lemma day_step_Inl:
  assumes "day_step w cfg start_date k s = Inl (e, evs)"
  shows "evs = events s \<or> (\<exists>msgs. evs = events s @ [ModelCall (model cfg) msgs])"
  using assms
  by (auto simp: day_step_def Let_def setup_litellm_def split: sum.splits option.splits)

lemma day_loop_append:
  "day_loop w cfg start_date (xs @ ys) s =
     (case day_loop w cfg start_date xs s of
        Inl x \<Rightarrow> Inl x
      | Inr s' \<Rightarrow> day_loop w cfg start_date ys s')"
  by (induction xs arbitrary: s) (auto split: sum.splits)

lemma day_loop_history:
  "day_loop w cfg start_date ds s = Inr s' \<Longrightarrow>
   length (conversation_history s') = length (conversation_history s) + 2 * length ds"
proof (induction ds arbitrary: s)
  case Nil
  then show ?case by simp
next
  case (Cons k ds)
  from Cons.prems obtain s1 where
    s1: "day_step w cfg start_date k s = Inr s1" and
    rest: "day_loop w cfg start_date ds s1 = Inr s'"
    by (auto split: sum.splits)
  from day_step_Inr [OF s1] have "length (conversation_history s1) = length (conversation_history s) + 2"
    by auto
  with Cons.IH [OF rest] show ?case by simp
qed

lemma day_loop_events:
  "day_loop w cfg start_date ds s = Inr s' \<Longrightarrow>
   \<exists>calls. events s' = events s @ calls \<and> length calls = length ds \<and>
           list_all is_model_call calls \<and>
           map transcript_length calls =
             map (\<lambda>i. length (conversation_history s) + 2 * i + 1) [0..<length ds]"
proof (induction ds arbitrary: s)
  case Nil
  then show ?case by simp
next
  case (Cons k ds)
  from Cons.prems obtain s1 where
    s1: "day_step w cfg start_date k s = Inr s1" and
    rest: "day_loop w cfg start_date ds s1 = Inr s'"
    by (auto split: sum.splits)
  from day_step_Inr [OF s1] obtain c where
    c: "events s1 = events s @ [c]" "is_model_call c"
       "transcript_length c = length (conversation_history s) + 1" and
    h: "length (conversation_history s1) = length (conversation_history s) + 2"
    by auto
  from Cons.IH [OF rest] obtain calls where
    calls: "events s' = events s1 @ calls" "length calls = length ds"
      "list_all is_model_call calls"
      "map transcript_length calls =
         map (\<lambda>i. length (conversation_history s1) + 2 * i + 1) [0..<length ds]"
    by blast
  have lens: "map transcript_length (c # calls) =
        map (\<lambda>i. length (conversation_history s) + 2 * i + 1) [0..<length (k # ds)]"
    by (simp add: map_upt_Suc c calls h del: upt_Suc)
  show ?case
    using lens by (intro exI [of _ "c # calls"]) (simp add: c calls del: upt_Suc)
qed

lemma day_loop_content:
  "day_loop w cfg start_date ds s = Inr s' \<Longrightarrow>
   \<exists>texts. length texts = length ds \<and>
           story_content s' = story_content s @ concat (map (day_section w start_date) (zip ds texts))"
proof (induction ds arbitrary: s)
  case Nil
  then show ?case by simp
next
  case (Cons k ds)
  from Cons.prems obtain s1 where
    s1: "day_step w cfg start_date k s = Inr s1" and
    rest: "day_loop w cfg start_date ds s1 = Inr s'"
    by (auto split: sum.splits)
  from day_step_Inr [OF s1] obtain t where
    t: "story_content s1 = story_content s @ day_section w start_date (k, t)"
    by auto
  from Cons.IH [OF rest] obtain texts where
    texts: "length texts = length ds"
      "story_content s' = story_content s1 @ concat (map (day_section w start_date) (zip ds texts))"
    by blast
  show ?case
    by (rule exI [of _ "t # texts"]) (simp add: t texts)
qed

lemma day_loop_Inl:
  "day_loop w cfg start_date ds s = Inl (e, evs) \<Longrightarrow>
   \<exists>calls. evs = events s @ calls \<and> length calls \<le> length ds \<and> list_all is_model_call calls"
proof (induction ds arbitrary: s)
  case Nil
  then show ?case by simp
next
  case (Cons k ds)
  show ?case
  proof (cases "day_step w cfg start_date k s")
    case (Inl x)
    with Cons.prems have "day_step w cfg start_date k s = Inl (e, evs)"
      by simp
    from day_step_Inl [OF this] show ?thesis
      by (auto intro: exI [of _ "[]"])
  next
    case (Inr s1)
    with Cons.prems have rest: "day_loop w cfg start_date ds s1 = Inl (e, evs)"
      by simp
    from day_step_Inr [OF Inr] obtain c where
      c: "events s1 = events s @ [c]" "is_model_call c"
      by auto
    from Cons.IH [OF rest] obtain calls where
      "evs = events s1 @ calls" "length calls \<le> length ds" "list_all is_model_call calls"
      by blast
    then show ?thesis
      by (intro exI [of _ "c # calls"]) (simp add: c)
  qed
qed

lemma storyboard_step_Inr:
  assumes "storyboard_step w cfg p n str = Inr s0"
  shows "\<exists>t. conversation_history s0 =
               [\<lparr>role = ''user'', content = storyboard_prompt p n str\<rparr>,
                \<lparr>role = ''assistant'', content = t\<rparr>] \<and>
             story_content s0 = document_head w cfg p n str t \<and>
             events s0 = [ModelCall (model cfg) [\<lparr>role = ''user'', content = storyboard_prompt p n str\<rparr>]]"
  using assms
  by (auto simp: storyboard_step_def Let_def setup_litellm_def split: sum.splits option.splits)

lemma storyboard_step_Inl:
  assumes "storyboard_step w cfg p n str = Inl (e, evs)"
  shows "\<exists>msgs. evs = [ModelCall (model cfg) msgs]"
  using assms
  by (auto simp: storyboard_step_def Let_def setup_litellm_def split: sum.splits option.splits)

lemma length_py_range: "length (py_range 1 (n + 1)) = nat (max n 0)"
  by (simp add: py_range_def)

text \<open>The loop of a run of \<open>n\<close> days passes through the state after day \<open>k\<close>.\<close>

lemma run_passes_day:
  assumes "1 \<le> k" and "k \<le> n"
  shows "day_loop w cfg start (py_range 1 (n + 1)) s0 =
           (case day_loop w cfg start (py_range 1 (k + 1)) s0 of
              Inl x \<Rightarrow> Inl x
            | Inr s \<Rightarrow> day_loop w cfg start (py_range (k + 1) (n + 1)) s)"
proof -
  have "py_range 1 (n + 1) = py_range 1 (k + 1) @ py_range (k + 1) (n + 1)"
    using assms by (simp add: py_range_def upto_split2 [of 1 k n])
  then show ?thesis
    by (simp add: day_loop_append)
qed

subsection \<open>The events of a run\<close>

text \<open>
  Either the run is ended by an exception before the file is written, and then its
  events are model invocations only, or its events are the model invocations followed
  by the one call of \<open>write_text\<close>.
\<close>

lemma run_shape:
  assumes "write_multi_day_story w p n f d = (out, evs)"
  shows "(out \<noteq> None \<and> list_all is_model_call evs \<and> length evs \<le> nat (max n 0) + 1) \<or>
         (\<exists>calls path doc. evs = calls @ [WriteText path doc] \<and> list_all is_model_call calls \<and>
            length calls = nat (max n 0) + 1 \<and>
            map transcript_length calls = map (\<lambda>i. 2 * i + 1) [0..<nat (max n 0) + 1])"
proof (cases "load_openai_config w")
  case (Inl e)
  with assms show ?thesis
    by (auto simp: write_multi_day_story_def)
next
  case cfg: (Inr cfg)
  show ?thesis
  proof (cases "start_date_of w p d")
    case (Inl e)
    with cfg assms show ?thesis
      by (auto simp: write_multi_day_story_def)
  next
    case start: (Inr start)
    let ?str = "strftime w ''%B %d, %Y'' start"
    show ?thesis
    proof (cases "storyboard_step w cfg p n ?str")
      case (Inl x)
      obtain e evs0 where x: "x = (e, evs0)"
        by (cases x)
      from storyboard_step_Inl [of w cfg p n ?str e evs0] Inl x
      obtain msgs where "evs0 = [ModelCall (model cfg) msgs]"
        by auto
      with cfg start Inl x assms show ?thesis
        by (auto simp: write_multi_day_story_def Let_def)
    next
      case s0: (Inr s0)
      from storyboard_step_Inr [OF s0] obtain c where
        c: "events s0 = [c]" "is_model_call c" "transcript_length c = 1" and
        h0: "length (conversation_history s0) = 2"
        by auto
      show ?thesis
      proof (cases "day_loop w cfg start (py_range 1 (n + 1)) s0")
        case (Inl x)
        obtain e evs1 where x: "x = (e, evs1)"
          by (cases x)
        from day_loop_Inl [of w cfg start "py_range 1 (n + 1)" s0 e evs1] Inl x
        obtain calls where
          "evs1 = events s0 @ calls" "length calls \<le> length (py_range 1 (n + 1))"
          "list_all is_model_call calls"
          by auto
        with cfg start s0 Inl x assms c show ?thesis
          by (auto simp: write_multi_day_story_def Let_def length_py_range)
      next
        case s: (Inr s)
        from day_loop_events [OF s] obtain calls where
          calls: "events s = events s0 @ calls" "length calls = length (py_range 1 (n + 1))"
            "list_all is_model_call calls"
            "map transcript_length calls =
               map (\<lambda>i. length (conversation_history s0) + 2 * i + 1)
                 [0..<length (py_range 1 (n + 1))]"
          by blast
        have lens: "map transcript_length (c # calls) =
            map (\<lambda>i. 2 * i + 1) [0..<nat (max n 0) + 1]"
          using calls(4) c(3) h0
          by (simp add: map_upt_Suc length_py_range del: upt_Suc)
        from cfg start s0 s assms have
          "evs = events s @ [WriteText (output_path_of w f) (concat (story_content s))]"
          by (auto simp: write_multi_day_story_def Let_def finish_def split: option.splits sum.splits)
        then have "evs = (c # calls) @ [WriteText (output_path_of w f) (concat (story_content s))]"
          by (simp add: calls c)
        moreover have "list_all is_model_call (c # calls)"
          by (simp add: c calls)
        moreover have "length (c # calls) = nat (max n 0) + 1"
          by (simp add: calls length_py_range)
        ultimately show ?thesis
          using lens by blast
      qed
    qed
  qed
qed

lemma filter_model_calls: "list_all is_model_call calls \<Longrightarrow> filter is_model_call calls = calls"
  by (induction calls) auto


lemma written_documents_calls: "list_all is_model_call calls \<Longrightarrow> written_documents calls = []"
proof (induction calls)
  case Nil
  then show ?case by (simp add: written_documents_def)
next
  case (Cons c calls)
  then show ?case by (cases c) (auto simp: written_documents_def)
qed

lemma written_documents_append:
  "written_documents (xs @ ys) = written_documents xs @ written_documents ys"
  by (simp add: written_documents_def)

subsection \<open>Runs in the example surroundings\<close>

lemma is_gpt5_gpt4o: "\<not> is_gpt5 ''gpt-4o''"
  by (simp add: is_gpt5_def lower_def lower_char_def)

lemma example_config:
  "load_openai_config example_world =
     Inr \<lparr>api_key = ''sk-test'', model = ''gpt-4o'', provider = ''OpenAI'',
          reasoning_effort = ''medium'', verbosity = ''medium''\<rparr>"
  by (simp add: load_openai_config_def getenv_def getenv_default_def example_world_def)

lemma example_call:
  "call_llm example_world ''gpt-4o'' msgs cfg = Inr (Some ''Once upon a time.'')"
  by (simp add: call_llm_def is_gpt5_gpt4o example_world_def)

lemma example_start:
  "start_date_of example_world ''A detective'' None = Inr \<lparr>ordinal = 739755, time_of_day = 0\<rparr>"
  by (simp add: start_date_of_def add_days_def offset_days_def example_world_def max_ordinal_def)

lemma example_write: "write_text example_world path doc = None"
  by (simp add: example_world_def)

lemma example_strftime_eq: "strftime example_world = example_strftime"
  by (simp add: example_world_def)

lemma example_run_returns_2:
  "fst (write_multi_day_story example_world ''A detective'' 2 None None) = None"
  by (simp add: write_multi_day_story_def example_config example_start storyboard_step_def
        setup_litellm_def example_call Let_def py_range_def upto.simps day_step_def
        add_days_def max_ordinal_def finish_def example_write)

lemmas run_eval = example_write example_strftime_eq add_days_def max_ordinal_def write_multi_day_story_def example_config example_start storyboard_step_def
        setup_litellm_def example_call Let_def py_range_def upto.simps day_step_def
        finish_def

subsection \<open>Model invocations\<close>

text \<open>
  C1, as the code has it: a run issues at most \<open>max N 0 + 1\<close> model invocations,
  and a run that returns issues exactly that many (N + 1 for a day count that is not
  negative, one otherwise), one after the other: invocation number \<open>i\<close>, counted from
  0, is given the transcript of the \<open>2 * i + 1\<close> entries written so far, that is all
  earlier prompts and responses and its own prompt.
\<close>

theorem model_invocations_count:
  "int (length (model_calls (snd (write_multi_day_story w p n f d)))) \<le> max n 0 + 1 \<and>
   (fst (write_multi_day_story w p n f d) = None \<longrightarrow>
      int (length (model_calls (snd (write_multi_day_story w p n f d)))) = max n 0 + 1 \<and>
      map transcript_length (model_calls (snd (write_multi_day_story w p n f d))) =
        map (\<lambda>i. 2 * i + 1) [0..<nat (max n 0) + 1])"
proof -
  obtain out evs where run: "write_multi_day_story w p n f d = (out, evs)"
    by (cases "write_multi_day_story w p n f d")
  from run_shape [OF run] show ?thesis
  proof
    assume a: "out \<noteq> None \<and> list_all is_model_call evs \<and> length evs \<le> nat (max n 0) + 1"
    then have "model_calls evs = evs"
      by (simp add: model_calls_def filter_model_calls)
    with a show ?thesis
      by (auto simp: run simp del: upt_Suc)
  next
    assume "\<exists>calls path doc. evs = calls @ [WriteText path doc] \<and> list_all is_model_call calls \<and>
            length calls = nat (max n 0) + 1 \<and>
            map transcript_length calls = map (\<lambda>i. 2 * i + 1) [0..<nat (max n 0) + 1]"
    then obtain calls path doc where
      c: "evs = calls @ [WriteText path doc]" "list_all is_model_call calls"
         "length calls = nat (max n 0) + 1"
         "map transcript_length calls = map (\<lambda>i. 2 * i + 1) [0..<nat (max n 0) + 1]"
      by blast
    then have "model_calls evs = calls"
      by (simp add: model_calls_def filter_model_calls)
    with c show ?thesis
      by (auto simp: run simp del: upt_Suc)
  qed
qed

theorem model_invocations_count_witness:
  "fst (write_multi_day_story example_world ''A detective'' 2 None None) = None \<and>
   int (length (model_calls (snd (write_multi_day_story example_world ''A detective'' 2 None None)))) = 3 \<and>
   map transcript_length
     (model_calls (snd (write_multi_day_story example_world ''A detective'' 2 None None))) = [1, 3, 5]"
  using model_invocations_count [of example_world "''A detective''" 2 None None]
    example_run_returns_2
  by (simp add: upt_conv_Cons)

text \<open>
  C1 as stated (exactly N + 1 invocations for every day count N) fails for the day
  count -1, which interactive mode accepts: the run returns after one invocation, the
  storyboard call, not after none.
\<close>

theorem one_call_for_negative_day_count:
  "fst (write_multi_day_story example_world ''A detective'' (- 1) None None) = None \<and>
   int (length (model_calls
          (snd (write_multi_day_story example_world ''A detective'' (- 1) None None)))) \<noteq> - 1 + 1"
  by (simp add: run_eval model_calls_def)

subsection \<open>The transcript\<close>

text \<open>A run that returns has completed every day from 1 to N.\<close>

lemma returning_run_completes_day:
  assumes "fst (write_multi_day_story w p n f d) = None" and "1 \<le> k" and "k \<le> n"
  shows "transcript_after_day w p n d k \<noteq> None"
proof -
  from assms(1) obtain cfg where cfg: "load_openai_config w = Inr cfg"
    by (cases "load_openai_config w") (auto simp: write_multi_day_story_def)
  from assms(1) cfg obtain start where start: "start_date_of w p d = Inr start"
    by (cases "start_date_of w p d") (auto simp: write_multi_day_story_def)
  let ?str = "strftime w ''%B %d, %Y'' start"
  from assms(1) cfg start obtain s0 where s0: "storyboard_step w cfg p n ?str = Inr s0"
    by (cases "storyboard_step w cfg p n ?str")
       (auto simp: write_multi_day_story_def Let_def split: prod.splits)
  from assms(1) cfg start s0 obtain s where
    s: "day_loop w cfg start (py_range 1 (n + 1)) s0 = Inr s"
    by (cases "day_loop w cfg start (py_range 1 (n + 1)) s0")
       (auto simp: write_multi_day_story_def Let_def split: prod.splits)
  from s run_passes_day [OF assms(2,3), of w cfg start s0]
  obtain sk where "day_loop w cfg start (py_range 1 (k + 1)) s0 = Inr sk"
    by (cases "day_loop w cfg start (py_range 1 (k + 1)) s0") auto
  with cfg start s0 show ?thesis
    by (simp add: transcript_after_day_def)
qed

lemma day_loop_transcript:
  "day_loop w cfg start_date ds s = Inr s' \<Longrightarrow>
   \<exists>texts. length texts = length ds \<and>
           conversation_history s' =
             conversation_history s @ concat (map (day_exchange w start_date) (zip ds texts))"
proof (induction ds arbitrary: s)
  case Nil
  then show ?case by simp
next
  case (Cons k ds)
  from Cons.prems obtain s1 where
    s1: "day_step w cfg start_date k s = Inr s1" and
    rest: "day_loop w cfg start_date ds s1 = Inr s'"
    by (auto split: sum.splits)
  from day_step_Inr [OF s1] obtain t where
    t: "conversation_history s1 = conversation_history s @ day_exchange w start_date (k, t)"
    by (auto simp: day_exchange_def)
  from Cons.IH [OF rest] obtain texts where
    texts: "length texts = length ds"
      "conversation_history s' =
         conversation_history s1 @ concat (map (day_exchange w start_date) (zip ds texts))"
    by blast
  show ?case
    by (rule exI [of _ "t # texts"]) (simp add: t texts)
qed

text \<open>The last event of a loop that ran is the call of its last day.\<close>

lemma day_loop_last_call:
  assumes "day_loop w cfg start_date (ds @ [k]) s = Inr s'"
  shows "\<exists>calls. events s' = calls @ [ModelCall (model cfg) (butlast (conversation_history s'))] \<and>
           length calls = length (events s) + length ds \<and>
           (list_all is_model_call (events s) \<longrightarrow> list_all is_model_call calls)"
proof -
  from assms obtain s1 where
    s1: "day_loop w cfg start_date ds s = Inr s1" and
    last: "day_step w cfg start_date k s1 = Inr s'"
    by (auto simp: day_loop_append split: sum.splits)
  from day_loop_events [OF s1] obtain calls where
    calls: "events s1 = events s @ calls" "length calls = length ds" "list_all is_model_call calls"
    by blast
  from day_step_Inr [OF last] obtain u t where
    h: "conversation_history s' = conversation_history s1 @ [u, \<lparr>role = ''assistant'', content = t\<rparr>]"
    and e: "events s' = events s1 @ [ModelCall (model cfg) (conversation_history s1 @ [u])]"
    by blast
  have "butlast (conversation_history s') = conversation_history s1 @ [u]"
    by (simp add: h butlast_append)
  with e calls show ?thesis
    by (intro exI [of _ "events s @ calls"]) simp
qed

text \<open>The events of a run of \<open>n\<close> days begin with the events up to day \<open>k\<close>.\<close>

lemma run_events_extend:
  assumes "1 \<le> k" and "k \<le> n"
    and cfg: "load_openai_config w = Inr cfg" and start: "start_date_of w p d = Inr start"
    and s0: "storyboard_step w cfg p n (strftime w ''%B %d, %Y'' start) = Inr s0"
    and sk: "day_loop w cfg start (py_range 1 (k + 1)) s0 = Inr sk"
  shows "\<exists>rest. snd (write_multi_day_story w p n f d) = events sk @ rest"
proof (cases "day_loop w cfg start (py_range (k + 1) (n + 1)) sk")
  case (Inl x)
  obtain e evs where x: "x = (e, evs)"
    by (cases x)
  from day_loop_Inl [of w cfg start "py_range (k + 1) (n + 1)" sk e evs] Inl x
  obtain calls where evs: "evs = events sk @ calls"
    by auto
  have "day_loop w cfg start (py_range 1 (n + 1)) s0 = Inl (e, evs)"
    using run_passes_day [OF assms(1,2), of w cfg start s0] sk Inl x by simp
  with cfg start s0 evs show ?thesis
    by (simp add: write_multi_day_story_def Let_def)
next
  case (Inr s)
  from day_loop_events [OF Inr] obtain calls where evs: "events s = events sk @ calls"
    by blast
  have full: "day_loop w cfg start (py_range 1 (n + 1)) s0 = Inr s"
    using run_passes_day [OF assms(1,2), of w cfg start s0] sk Inr by simp
  have "snd (finish w start n (output_path_of w f) s) =
          events s @ [WriteText (output_path_of w f) (concat (story_content s))]"
    by (simp add: finish_def Let_def split: option.splits sum.splits)
  with cfg start s0 full evs show ?thesis
    by (simp add: write_multi_day_story_def Let_def)
qed

lemma model_calls_append: "model_calls (xs @ ys) = model_calls xs @ model_calls ys"
  by (simp add: model_calls_def)

lemma py_range_snoc: "1 \<le> k \<Longrightarrow> py_range 1 (k + 1) = py_range 1 k @ [k]"
  by (simp add: py_range_def upto_rec2)

text \<open>
  The transcript after a completed day, and the invocation of the run that produced
  its last entry.
\<close>

lemma transcript_of_completed_day:
  assumes "1 \<le> k" and "k \<le> n"
    and cfg: "load_openai_config w = Inr cfg" and start: "start_date_of w p d = Inr start"
    and after: "transcript_after_day w p n d k = Some h"
  shows "length h = nat (2 * k + 2) \<and>
         (\<exists>sb texts.
            length texts = nat k \<and>
            h = [\<lparr>role = ''user'',
                  content = storyboard_prompt p n (strftime w ''%B %d, %Y'' start)\<rparr>,
                 \<lparr>role = ''assistant'', content = sb\<rparr>] @
                concat (map (day_exchange w start) (zip [1..k] texts))) \<and>
         nat k < length (model_calls (snd (write_multi_day_story w p n f d))) \<and>
         model_calls (snd (write_multi_day_story w p n f d)) ! nat k =
           ModelCall (model cfg) (butlast h)"
proof -
  let ?str = "strftime w ''%B %d, %Y'' start"
  from after cfg start obtain s0 sk where
    s0: "storyboard_step w cfg p n ?str = Inr s0" and
    sk: "day_loop w cfg start (py_range 1 (k + 1)) s0 = Inr sk" and
    h: "h = conversation_history sk"
    by (auto simp: transcript_after_day_def split: sum.splits)
  from storyboard_step_Inr [OF s0] obtain sb where
    h0: "conversation_history s0 =
           [\<lparr>role = ''user'', content = storyboard_prompt p n ?str\<rparr>,
            \<lparr>role = ''assistant'', content = sb\<rparr>]" and
    e0: "length (events s0) = 1" "list_all is_model_call (events s0)"
    by auto
  have len: "length (py_range 1 (k + 1)) = nat k"
    using assms(1) by (simp add: py_range_def)
  have l: "length h = nat (2 * k + 2)"
    using day_loop_history [OF sk] h0 len assms(1) by (simp add: h)
  from day_loop_transcript [OF sk] obtain texts where
    texts: "length texts = length (py_range 1 (k + 1))"
      "conversation_history sk =
         conversation_history s0 @
           concat (map (day_exchange w start) (zip (py_range 1 (k + 1)) texts))"
    by blast
  have shape: "\<exists>sb texts.
            length texts = nat k \<and>
            h = [\<lparr>role = ''user'', content = storyboard_prompt p n ?str\<rparr>,
                 \<lparr>role = ''assistant'', content = sb\<rparr>] @
                concat (map (day_exchange w start) (zip [1..k] texts))"
    using texts h0 len by (intro exI [of _ sb] exI [of _ texts]) (simp add: h py_range_def)
  from sk py_range_snoc [OF assms(1)] have
    "day_loop w cfg start (py_range 1 k @ [k]) s0 = Inr sk"
    by simp
  from day_loop_last_call [OF this] e0 obtain calls where
    calls: "events sk = calls @ [ModelCall (model cfg) (butlast h)]"
      "length calls = 1 + length (py_range 1 k)" "list_all is_model_call calls"
    by (auto simp: h)
  have lc: "length calls = nat k"
    using calls(2) assms(1) by (simp add: py_range_def)
  from run_events_extend [OF assms(1,2) cfg start s0 sk, of f] obtain rest where
    "snd (write_multi_day_story w p n f d) = events sk @ rest"
    by blast
  then have mc: "model_calls (snd (write_multi_day_story w p n f d)) =
      calls @ ModelCall (model cfg) (butlast h) # model_calls rest"
    using calls(1,3) by (simp add: model_calls_append) (simp add: model_calls_def filter_model_calls)
  have "nat k < length (model_calls (snd (write_multi_day_story w p n f d)))"
    by (simp add: mc lc)
  moreover have "model_calls (snd (write_multi_day_story w p n f d)) ! nat k =
      ModelCall (model cfg) (butlast h)"
    using lc by (simp add: mc nth_append)
  ultimately show ?thesis
    using l shape by blast
qed

text \<open>
  C2: for every day \<open>k\<close> from 1 to N of a run, immediately after day \<open>k\<close> has
  completed the transcript has exactly \<open>2 * k + 2\<close> entries: the storyboard prompt
  and its response, then the prompt and the response of each of the days 1 to
  \<open>k\<close>, in order. It is the transcript that the run handed to the model in its
  invocation for day \<open>k\<close>, followed by the response. A run that returns completes
  every day from 1 to N.
\<close>

theorem transcript_length_after_day:
  assumes "1 \<le> k" and "k \<le> n"
    and cfg: "load_openai_config w = Inr cfg" and start: "start_date_of w p d = Inr start"
  shows "(fst (write_multi_day_story w p n f d) = None \<longrightarrow>
            transcript_after_day w p n d k \<noteq> None) \<and>
         (\<forall>h. transcript_after_day w p n d k = Some h \<longrightarrow>
            length h = nat (2 * k + 2) \<and>
            (\<exists>sb texts.
               length texts = nat k \<and>
               h = [\<lparr>role = ''user'',
                     content = storyboard_prompt p n (strftime w ''%B %d, %Y'' start)\<rparr>,
                    \<lparr>role = ''assistant'', content = sb\<rparr>] @
                   concat (map (day_exchange w start) (zip [1..k] texts))) \<and>
            nat k < length (model_calls (snd (write_multi_day_story w p n f d))) \<and>
            model_calls (snd (write_multi_day_story w p n f d)) ! nat k =
              ModelCall (model cfg) (butlast h))"
proof (rule conjI)
  show "fst (write_multi_day_story w p n f d) = None \<longrightarrow>
          transcript_after_day w p n d k \<noteq> None"
  proof
    assume "fst (write_multi_day_story w p n f d) = None"
    then show "transcript_after_day w p n d k \<noteq> None"
      using assms(1,2) by (rule returning_run_completes_day)
  qed
next
  show "\<forall>h. transcript_after_day w p n d k = Some h \<longrightarrow>
            length h = nat (2 * k + 2) \<and>
            (\<exists>sb texts.
               length texts = nat k \<and>
               h = [\<lparr>role = ''user'',
                     content = storyboard_prompt p n (strftime w ''%B %d, %Y'' start)\<rparr>,
                    \<lparr>role = ''assistant'', content = sb\<rparr>] @
                   concat (map (day_exchange w start) (zip [1..k] texts))) \<and>
            nat k < length (model_calls (snd (write_multi_day_story w p n f d))) \<and>
            model_calls (snd (write_multi_day_story w p n f d)) ! nat k =
              ModelCall (model cfg) (butlast h)"
    using transcript_of_completed_day [OF assms] by blast
qed

lemma example_after_day_1:
  "transcript_after_day example_world ''A detective'' 2 None 1 \<noteq> None"
  by (simp add: transcript_after_day_def run_eval add_days_def max_ordinal_def)

theorem transcript_length_after_day_witness:
  "(1::int) \<le> 1 \<and> (1::int) \<le> 2 \<and>
   load_openai_config example_world =
     Inr \<lparr>api_key = ''sk-test'', model = ''gpt-4o'', provider = ''OpenAI'',
          reasoning_effort = ''medium'', verbosity = ''medium''\<rparr> \<and>
   start_date_of example_world ''A detective'' None = Inr \<lparr>ordinal = 739755, time_of_day = 0\<rparr> \<and>
   fst (write_multi_day_story example_world ''A detective'' 2 None None) = None \<and>
   transcript_after_day example_world ''A detective'' 2 None 1 \<noteq> None \<and>
   length (the (transcript_after_day example_world ''A detective'' 2 None 1)) = 4 \<and>
   model_calls (snd (write_multi_day_story example_world ''A detective'' 2 None None)) ! 1 =
     ModelCall ''gpt-4o'' (butlast (the (transcript_after_day example_world ''A detective'' 2 None 1)))"
proof -
  have a: "(1::int) \<le> 1" and b: "(1::int) \<le> 2"
    by simp_all
  from example_after_day_1 obtain h where
    h: "transcript_after_day example_world ''A detective'' 2 None 1 = Some h"
    by blast
  from transcript_length_after_day [OF a b example_config example_start, where f = None] h
  have "length h = 4 \<and>
        model_calls (snd (write_multi_day_story example_world ''A detective'' 2 None None)) ! 1 =
          ModelCall ''gpt-4o'' (butlast h)"
    by simp
  with h example_config example_start example_run_returns_2 show ?thesis
    by simp
qed

subsection \<open>The write of the document\<close>




subsection \<open>The document\<close>

lemma startswith_append: "startswith (a @ b) a"
  by (induction a) auto

lemma upto_1_py_range: "py_range 1 (n + 1) = [1..n]"
  by (simp add: py_range_def)

text \<open>
  C3, as the code has it: the document that a run writes is the concatenation of the
  opening fragments, the first of which is the premise heading, followed by exactly
  \<open>max N 0\<close> day sections (N of them when N is not negative), for the days 1 to N in
  ascending order; the section of day \<open>k\<close> opens with the header that carries
  \<open>k\<close> and the date \<open>k - 1\<close> days after the start date, and holds the text
  that the model returned for that day.
\<close>

theorem document_structure:
  assumes "load_openai_config w = Inr cfg" and "start_date_of w p d = Inr start"
    and "written_documents (snd (write_multi_day_story w p n f d)) \<noteq> []"
  shows "\<exists>sb texts.
           length texts = nat n \<and>
           written_documents (snd (write_multi_day_story w p n f d)) =
             [concat (document_head w cfg p n (strftime w ''%B %d, %Y'' start) sb @
                      concat (map (day_section w start) (zip [1..n] texts)))] \<and>
           startswith
             (concat (document_head w cfg p n (strftime w ''%B %d, %Y'' start) sb @
                      concat (map (day_section w start) (zip [1..n] texts))))
             (''# '' @ p @ [CHR 0x0A, CHR 0x0A])"
proof -
  let ?str = "strftime w ''%B %d, %Y'' start"
  let ?run = "write_multi_day_story w p n f d"
  have no_docs: "written_documents evs = []" if "list_all is_model_call evs" for evs
    using that by (rule written_documents_calls)
  show ?thesis
  proof (cases "storyboard_step w cfg p n ?str")
    case (Inl x)
    obtain e evs0 where x: "x = (e, evs0)"
      by (cases x)
    from storyboard_step_Inl [of w cfg p n ?str e evs0] Inl x
    obtain msgs where "evs0 = [ModelCall (model cfg) msgs]"
      by auto
    with assms Inl x have "written_documents (snd ?run) = []"
      by (simp add: write_multi_day_story_def Let_def written_documents_def)
    with assms(3) show ?thesis
      by simp
  next
    case s0: (Inr s0)
    from storyboard_step_Inr [OF s0] obtain sb where
      sb: "story_content s0 = document_head w cfg p n ?str sb" and
      e0: "list_all is_model_call (events s0)"
      by auto
    show ?thesis
    proof (cases "day_loop w cfg start (py_range 1 (n + 1)) s0")
      case (Inl x)
      obtain e evs1 where x: "x = (e, evs1)"
        by (cases x)
      from day_loop_Inl [of w cfg start "py_range 1 (n + 1)" s0 e evs1] Inl x
      obtain calls where "evs1 = events s0 @ calls" "list_all is_model_call calls"
        by auto
      with e0 have "list_all is_model_call evs1"
        by simp
      then have "written_documents evs1 = []"
        by (rule no_docs)
      with assms s0 Inl x have "written_documents (snd ?run) = []"
        by (simp add: write_multi_day_story_def Let_def)
      with assms(3) show ?thesis
        by simp
    next
      case s: (Inr s)
      from day_loop_events [OF s] obtain calls where
        "events s = events s0 @ calls" "list_all is_model_call calls"
        by blast
      with e0 have "list_all is_model_call (events s)"
        by simp
      then have es: "written_documents (events s) = []"
        by (rule no_docs)
      from day_loop_content [OF s] obtain texts where
        texts: "length texts = length (py_range 1 (n + 1))"
          "story_content s = story_content s0 @
             concat (map (day_section w start) (zip (py_range 1 (n + 1)) texts))"
        by blast
      let ?doc = "concat (document_head w cfg p n ?str sb @
                      concat (map (day_section w start) (zip [1..n] texts)))"
      have "snd (finish w start n (output_path_of w f) s) =
              events s @ [WriteText (output_path_of w f) (concat (story_content s))]"
        by (simp add: finish_def Let_def split: option.splits sum.splits)
      with assms s0 s have "written_documents (snd ?run) = [concat (story_content s)]"
        by (simp add: write_multi_day_story_def Let_def written_documents_append es)
           (simp add: written_documents_def)
      then have doc: "written_documents (snd ?run) = [?doc]"
        by (simp add: texts sb upto_1_py_range)
      have len: "length texts = nat n"
        using texts(1) by (simp add: py_range_def)
      have "?doc = (''# '' @ p @ [CHR 0x0A, CHR 0x0A]) @
              concat (tl (document_head w cfg p n ?str sb) @
                      concat (map (day_section w start) (zip [1..n] texts)))"
        by (simp add: document_head_def)
      then have "startswith ?doc (''# '' @ p @ [CHR 0x0A, CHR 0x0A])"
        by (simp only: startswith_append)
      with doc len show ?thesis
        by blast
    qed
  qed
qed

lemma example_run_writes_2:
  "written_documents (snd (write_multi_day_story example_world ''A detective'' 2 None None)) \<noteq> []"
  by (simp add: run_eval written_documents_def)

theorem document_structure_witness:
  "load_openai_config example_world =
     Inr \<lparr>api_key = ''sk-test'', model = ''gpt-4o'', provider = ''OpenAI'',
          reasoning_effort = ''medium'', verbosity = ''medium''\<rparr> \<and>
   start_date_of example_world ''A detective'' None = Inr \<lparr>ordinal = 739755, time_of_day = 0\<rparr> \<and>
   written_documents (snd (write_multi_day_story example_world ''A detective'' 2 None None)) \<noteq> [] \<and>
   (\<exists>sb texts.
      length texts = nat 2 \<and>
      written_documents (snd (write_multi_day_story example_world ''A detective'' 2 None None)) =
        [concat (document_head example_world
                   \<lparr>api_key = ''sk-test'', model = ''gpt-4o'', provider = ''OpenAI'',
                    reasoning_effort = ''medium'', verbosity = ''medium''\<rparr>
                   ''A detective'' 2
                   (strftime example_world ''%B %d, %Y'' \<lparr>ordinal = 739755, time_of_day = 0\<rparr>) sb @
                 concat (map (day_section example_world \<lparr>ordinal = 739755, time_of_day = 0\<rparr>)
                           (zip [1..2] texts)))])"
  using document_structure [OF example_config example_start example_run_writes_2]
    example_config example_start example_run_writes_2
  by blast

text \<open>
  C3 as stated (exactly N day-section headers for every day count N) fails for the day
  count -1: the run writes a document that consists of the opening fragments alone,
  none of which is a day header.
\<close>

theorem no_day_header_for_negative_day_count:
  "written_documents (snd (write_multi_day_story example_world ''A detective'' (- 1) None None)) =
     [concat (document_head example_world
                \<lparr>api_key = ''sk-test'', model = ''gpt-4o'', provider = ''OpenAI'',
                 reasoning_effort = ''medium'', verbosity = ''medium''\<rparr>
                ''A detective'' (- 1) (example_strftime ''%B %d, %Y'' \<lparr>ordinal = 739755, time_of_day = 0\<rparr>)
                ''Once upon a time.'')] \<and>
   day_headers
     (document_head example_world
                \<lparr>api_key = ''sk-test'', model = ''gpt-4o'', provider = ''OpenAI'',
                 reasoning_effort = ''medium'', verbosity = ''medium''\<rparr>
                ''A detective'' (- 1) (example_strftime ''%B %d, %Y'' \<lparr>ordinal = 739755, time_of_day = 0\<rparr>)
                ''Once upon a time.'') = [] \<and>
   int (length (day_headers
     (document_head example_world
                \<lparr>api_key = ''sk-test'', model = ''gpt-4o'', provider = ''OpenAI'',
                 reasoning_effort = ''medium'', verbosity = ''medium''\<rparr>
                ''A detective'' (- 1) (example_strftime ''%B %d, %Y'' \<lparr>ordinal = 739755, time_of_day = 0\<rparr>)
                ''Once upon a time.''))) \<noteq> - 1"
  by (simp add: run_eval written_documents_def day_headers_def document_head_def)

end
